theory Spec2Isabelle
  imports Complex_Main
begin

section \<open>The circuit model the two scripts build on\<close>

text \<open>
  Both scripts call into a quantum circuit library for qubits, gates and the circuit
  container. The library is not part of the repository; what the scripts use of it is
  taken from the data model of the specification (section 3).

  Modelled from the spec: the qubit class \<open>cirq.GridQubit\<close> is missing from the sources.
  A qubit is an identity with a row and a column coordinate, and qubits are compared by
  coordinate equality. Coordinates are numbers: the layouts use integers and
  half-integers, on which the source's additions of \<open>-0.5\<close> and \<open>0.5\<close> are exact, so
  coordinates are rationals and \<open>0.5\<close> is \<open>1/2\<close>. Python compares \<open>0\<close> and \<open>0.0\<close>
  equal, as the rationals do.
\<close>

datatype qubit = GridQubit (row: rat) (col: rat)

text \<open>
  Modelled from the spec: the operations of the circuit library (\<open>cirq.H\<close>, \<open>cirq.CNOT\<close>,
  \<open>cirq.reset\<close>, \<open>cirq.measure\<close> with its \<open>key\<close>) and its circuit container are missing
  from the sources. An operation names its gate kind and its qubit arguments in order;
  \<open>CNOT c t\<close> has control \<open>c\<close> and target \<open>t\<close>. A circuit is the sequence of its
  operations in the order of the \<open>append\<close> calls; what the library does beyond that
  (grouping operations into moments, refusing arguments) is not in the model.
\<close>

datatype operation =
    H qubit
  | CNOT qubit qubit
  | Reset qubit
  | Measure "qubit list" string

type_synonym circuit = "operation list"

definition Circuit :: circuit where
  "Circuit = []"

definition circuit_append :: "circuit \<Rightarrow> operation list \<Rightarrow> circuit" where
  "circuit_append circuit ops = circuit @ ops"

section \<open>Python dictionaries with insertion order\<close>

text \<open>
  \<open>qubit_map\<close> is a \<open>dict\<close>: iteration follows insertion order, and storing under a key
  that is already present replaces the value and keeps the key's place. Looking up an
  absent key raises \<open>KeyError\<close>.
\<close>

datatype error = KeyError qubit

fun dict_setitem :: "('k \<times> 'v) list \<Rightarrow> 'k \<Rightarrow> 'v \<Rightarrow> ('k \<times> 'v) list" where
  "dict_setitem [] k v = [(k, v)]"
| "dict_setitem ((k', v') # m) k v =
     (if k' = k then (k', v) # m else (k', v') # dict_setitem m k v)"

definition dict_getitem :: "(qubit \<times> 'v) list \<Rightarrow> qubit \<Rightarrow> error + 'v" where
  "dict_getitem m k = (case map_of m k of None \<Rightarrow> Inl (KeyError k) | Some v \<Rightarrow> Inr v)"

section \<open>error-syndrome-stabilizers.py\<close>

record stabilizer_circuits =
  data_qubits :: "qubit list"
  ancilla_qubits :: "qubit list"
  qubit_map :: "(qubit \<times> (rat \<times> rat)) list"

text \<open>
  \<open>__init__\<close>: the dict comprehension \<open>{q: (q.row, q.col) for q in data_qubits + ancilla_qubits}\<close>
  stores the entries one after the other. The body has no statement that raises for a
  list of qubits, so construction is a total function.
\<close>

definition StabilizerCircuits_init :: "qubit list \<Rightarrow> qubit list \<Rightarrow> stabilizer_circuits" where
  "StabilizerCircuits_init data_qubits' ancilla_qubits' =
     \<lparr> data_qubits = data_qubits',
       ancilla_qubits = ancilla_qubits',
       qubit_map = foldl (\<lambda>m q. dict_setitem m q (row q, col q)) []
                     (data_qubits' @ ancilla_qubits') \<rparr>"

text \<open>
  \<open>_get_neighbors\<close>: the innermost loop scans all items of \<open>qubit_map\<close> and appends every
  qubit whose stored position equals \<open>neighbor_pos\<close>; the two outer loops run over
  \<open>dr\<close> and \<open>dc\<close> in \<open>[-0.5, 0.5]\<close>.
\<close>

definition scan_items ::
  "(qubit \<times> (rat \<times> rat)) list \<Rightarrow> rat \<times> rat \<Rightarrow> qubit list \<Rightarrow> qubit list" where
  "scan_items items neighbor_pos neighbors =
     foldl (\<lambda>neighbors (q, pos). if pos = neighbor_pos then neighbors @ [q] else neighbors)
       neighbors items"

definition get_neighbors :: "stabilizer_circuits \<Rightarrow> qubit \<Rightarrow> error + qubit list" where
  "get_neighbors self ancilla_qubit =
     (case dict_getitem (qubit_map self) ancilla_qubit of
        Inl e \<Rightarrow> Inl e
      | Inr (r, c) \<Rightarrow>
          Inr (foldl (\<lambda>neighbors dr.
                 foldl (\<lambda>neighbors dc. scan_items (qubit_map self) (r + dr, c + dc) neighbors)
                   neighbors [- (1 / 2), 1 / 2])
               [] [- (1 / 2), 1 / 2]))"

text \<open>
  The two \<open>for ancilla in self.ancilla_qubits\<close> loops of \<open>create_stabilizer_cycle\<close> differ
  only in the gate they build from the ancilla and a neighbor, which is the parameter
  \<open>gate\<close>. A \<open>KeyError\<close> of \<open>_get_neighbors\<close> leaves the loop and the method.
\<close>

fun cnot_loop ::
  "stabilizer_circuits \<Rightarrow> (qubit \<Rightarrow> qubit \<Rightarrow> operation) \<Rightarrow> qubit list \<Rightarrow> circuit
     \<Rightarrow> error + circuit" where
  "cnot_loop self gate [] circuit = Inr circuit"
| "cnot_loop self gate (ancilla # rest) circuit =
     (case get_neighbors self ancilla of
        Inl e \<Rightarrow> Inl e
      | Inr neighbors \<Rightarrow>
          cnot_loop self gate rest (circuit_append circuit (map (gate ancilla) neighbors)))"

definition create_stabilizer_cycle :: "stabilizer_circuits \<Rightarrow> error + circuit" where
  "create_stabilizer_cycle self =
     (let circuit = circuit_append Circuit (map H (ancilla_qubits self)) in
      case cnot_loop self (\<lambda>ancilla data. CNOT ancilla data) (ancilla_qubits self) circuit of
        Inl e \<Rightarrow> Inl e
      | Inr circuit \<Rightarrow>
          let circuit = circuit_append circuit (map H (ancilla_qubits self)) in
          (case cnot_loop self (\<lambda>ancilla data. CNOT data ancilla) (ancilla_qubits self) circuit of
             Inl e \<Rightarrow> Inl e
           | Inr circuit \<Rightarrow>
               Inr (circuit_append circuit [Measure (ancilla_qubits self) ''syndrome''])))"

section \<open>logical-qubit-encoder.py\<close>

record surface_code_encoder =
  encoder_data_qubits :: "qubit list"
  encoder_ancilla_qubits :: "qubit list"
  all_qubits :: "qubit list"

definition SurfaceCodeEncoder_init :: "qubit list \<Rightarrow> qubit list \<Rightarrow> surface_code_encoder" where
  "SurfaceCodeEncoder_init data_qubits' ancilla_qubits' =
     \<lparr> encoder_data_qubits = data_qubits',
       encoder_ancilla_qubits = ancilla_qubits',
       all_qubits = data_qubits' @ ancilla_qubits' \<rparr>"

definition create_logical_zero_circuit :: "surface_code_encoder \<Rightarrow> circuit" where
  "create_logical_zero_circuit self =
     circuit_append Circuit (map Reset (encoder_data_qubits self))"

section \<open>The example patch of both scripts\<close>

text \<open>
  \<open>data = [GridQubit(i, j) for i in [0, 1] for j in [0, 1]]\<close> and the three ancillas of
  the \<open>__main__\<close> blocks.
\<close>

definition example_data :: "qubit list" where
  "example_data = [GridQubit 0 0, GridQubit 0 1, GridQubit 1 0, GridQubit 1 1]"

definition example_ancillas :: "qubit list" where
  "example_ancillas =
     [GridQubit (1 / 2) (1 / 2), GridQubit (1 / 2) (3 / 2), GridQubit (3 / 2) (1 / 2)]"

section \<open>Calls of the generators on the interpreter state\<close>

text \<open>
  What lives across calls: the object \<open>self\<close> refers to, the circuit objects created so
  far, and the lines printed to standard output. A circuit object is a mutable
  container, known by its address (its index in \<open>circuits\<close>); whatever else the
  interpreter holds is the remaining part of the record, which the statements of the
  two methods neither read nor write.
\<close>

record 'o interpreter =
  self_object :: 'o
  circuits :: "circuit list"
  stdout :: "string list"

text \<open>
  \<open>cirq.Circuit()\<close> creates a new empty circuit object, \<open>circuit.append(...)\<close> mutates
  the circuit object it is called on, and \<open>print\<close> writes one line.
\<close>

definition new_Circuit :: "('o, 'z) interpreter_scheme \<Rightarrow> nat \<times> ('o, 'z) interpreter_scheme" where
  "new_Circuit s = (length (circuits s), s\<lparr>circuits := circuits s @ [Circuit]\<rparr>)"

definition append_to ::
  "nat \<Rightarrow> operation list \<Rightarrow> ('o, 'z) interpreter_scheme \<Rightarrow> ('o, 'z) interpreter_scheme" where
  "append_to c ops s = s\<lparr>circuits := (circuits s)[c := circuit_append (circuits s ! c) ops]\<rparr>"

definition print_line :: "string \<Rightarrow> ('o, 'z) interpreter_scheme \<Rightarrow> ('o, 'z) interpreter_scheme" where
  "print_line line s = s\<lparr>stdout := stdout s @ [line]\<rparr>"

text \<open>
  The loops \<open>for ancilla in self.ancilla_qubits\<close>, statement by statement on the state:
  \<open>self._get_neighbors(ancilla)\<close> reads \<open>self.qubit_map\<close> and builds a local list; the
  \<open>append\<close> mutates the circuit at address \<open>c\<close>. A \<open>KeyError\<close> leaves the loop with
  the state reached so far.
\<close>

fun cnot_loop_on ::
  "(qubit \<Rightarrow> qubit \<Rightarrow> operation) \<Rightarrow> qubit list \<Rightarrow> nat
     \<Rightarrow> (stabilizer_circuits, 'z) interpreter_scheme
     \<Rightarrow> error option \<times> (stabilizer_circuits, 'z) interpreter_scheme" where
  "cnot_loop_on gate [] c s = (None, s)"
| "cnot_loop_on gate (ancilla # rest) c s =
     (case get_neighbors (self_object s) ancilla of
        Inl e \<Rightarrow> (Some e, s)
      | Inr neighbors \<Rightarrow> cnot_loop_on gate rest c (append_to c (map (gate ancilla) neighbors) s))"

text \<open>
  \<open>create_stabilizer_cycle\<close> as the sequence of its statements. It returns the address
  of the circuit it has built, or raises; the status line is printed only when no
  statement before it has raised.
\<close>

definition run_create_stabilizer_cycle ::
  "(stabilizer_circuits, 'z) interpreter_scheme
     \<Rightarrow> (error + nat) \<times> (stabilizer_circuits, 'z) interpreter_scheme" where
  "run_create_stabilizer_cycle s0 =
     (case new_Circuit s0 of (circuit, s1) \<Rightarrow>
      let s2 = append_to circuit (map H (ancilla_qubits (self_object s1))) s1 in
      case cnot_loop_on (\<lambda>ancilla data. CNOT ancilla data) (ancilla_qubits (self_object s2))
             circuit s2 of
        (Some e, s3) \<Rightarrow> (Inl e, s3)
      | (None, s3) \<Rightarrow>
          let s4 = append_to circuit (map H (ancilla_qubits (self_object s3))) s3 in
          (case cnot_loop_on (\<lambda>ancilla data. CNOT data ancilla) (ancilla_qubits (self_object s4))
                  circuit s4 of
             (Some e, s5) \<Rightarrow> (Inl e, s5)
           | (None, s5) \<Rightarrow>
               let s6 = append_to circuit [Measure (ancilla_qubits (self_object s5)) ''syndrome''] s5;
                   s7 = print_line
                          ''[Stabilizers] Created one full stabilizer measurement cycle circuit.'' s6
               in (Inr circuit, s7)))"

text \<open>\<open>create_logical_zero_circuit\<close> as the sequence of its statements.\<close>

definition run_create_logical_zero_circuit ::
  "(surface_code_encoder, 'z) interpreter_scheme
     \<Rightarrow> nat \<times> (surface_code_encoder, 'z) interpreter_scheme" where
  "run_create_logical_zero_circuit s0 =
     (case new_Circuit s0 of (circuit, s1) \<Rightarrow>
      let s2 = append_to circuit (map Reset (encoder_data_qubits (self_object s1))) s1;
          s3 = print_line ''[Encoder] Created circuit for logical |0> state.'' s2
      in (circuit, s3))"

text \<open>The operation sequence of a returned circuit, read from the state.\<close>

definition circuit_at :: "('o, 'z) interpreter_scheme \<Rightarrow> error + nat \<Rightarrow> error + circuit" where
  "circuit_at s r = (case r of Inl e \<Rightarrow> Inl e | Inr c \<Rightarrow> Inr (circuits s ! c))"

section \<open>Notions of the specification\<close>

text \<open>
  The definitions of this section are not in the sources; the statements below are
  written with them.
\<close>

definition coords :: "qubit \<Rightarrow> rat \<times> rat" where
  "coords q = (row q, col q)"

text \<open>
  The insertion order of the original qubit set: the sequence with every qubit at its
  first occurrence only.
\<close>

fun first_occurrences :: "'a list \<Rightarrow> 'a list" where
  "first_occurrences [] = []"
| "first_occurrences (x # xs) = x # first_occurrences (removeAll x xs)"

text \<open>
  The qubits of \<open>qs\<close> that sit at offset \<open>off\<close> from \<open>a\<close>, in insertion order.
\<close>

definition matches_at :: "qubit list \<Rightarrow> qubit \<Rightarrow> rat \<times> rat \<Rightarrow> qubit list" where
  "matches_at qs a off =
     filter (\<lambda>q. coords q = (row a + fst off, col a + snd off)) (first_occurrences qs)"

text \<open>The four diagonal offsets, and those of them at which a data qubit sits.\<close>

definition neighbor_offsets :: "(rat \<times> rat) list" where
  "neighbor_offsets = [(- (1 / 2), - (1 / 2)), (- (1 / 2), 1 / 2), (1 / 2, - (1 / 2)), (1 / 2, 1 / 2)]"

definition data_occupied :: "qubit list \<Rightarrow> qubit \<Rightarrow> (rat \<times> rat) list" where
  "data_occupied ds a =
     filter (\<lambda>off. GridQubit (row a + fst off) (col a + snd off) \<in> set ds) neighbor_offsets"

text \<open>The neighbors the resolver returns for a qubit, none where it raises.\<close>

definition resolved :: "stabilizer_circuits \<Rightarrow> qubit \<Rightarrow> qubit list" where
  "resolved self q = (case get_neighbors self q of Inl e \<Rightarrow> [] | Inr neighbors \<Rightarrow> neighbors)"

text \<open>A construction input in which two qubits of the combined sequence share a coordinate.\<close>

definition has_collision :: "qubit list \<Rightarrow> qubit list \<Rightarrow> bool" where
  "has_collision ds as = (\<not> distinct (map coords (ds @ as)))"

section \<open>The coordinate mapping built at construction\<close>

lemma keys_dict_setitem:
  "map fst (dict_setitem m k v) = (if k \<in> set (map fst m) then map fst m else map fst m @ [k])"
  by (induction m k v rule: dict_setitem.induct) auto

lemma dict_setitem_tabulate:
  "dict_setitem (map (\<lambda>q. (q, f q)) ks) k (f k) =
     map (\<lambda>q. (q, f q)) (if k \<in> set ks then ks else ks @ [k])"
  by (induction ks) auto

lemma set_first_occurrences [simp]: "set (first_occurrences xs) = set xs"
  by (induction xs rule: first_occurrences.induct) auto

lemma distinct_first_occurrences [simp]: "distinct (first_occurrences xs)"
  by (induction xs rule: first_occurrences.induct) auto

lemma first_occurrences_distinct: "distinct xs \<Longrightarrow> first_occurrences xs = xs"
  by (induction xs) auto

lemma foldl_tabulate:
  "foldl (\<lambda>m q. dict_setitem m q (f q)) (map (\<lambda>q. (q, f q)) ks) xs =
     map (\<lambda>q. (q, f q)) (ks @ first_occurrences (filter (\<lambda>x. x \<notin> set ks) xs))"
proof (induction xs arbitrary: ks)
  case Nil
  then show ?case by simp
next
  case (Cons x xs)
  show ?case
  proof (cases "x \<in> set ks")
    case True
    then show ?thesis using Cons[of ks] by (simp add: dict_setitem_tabulate)
  next
    case False
    have "removeAll x (filter (\<lambda>x. x \<notin> set ks) xs) = filter (\<lambda>y. y \<notin> set (ks @ [x])) xs"
      by (auto simp add: removeAll_filter_not_eq intro: filter_cong)
    then show ?thesis using False Cons[of "ks @ [x]"] by (simp add: dict_setitem_tabulate)
  qed
qed

lemma qubit_map_init:
  "qubit_map (StabilizerCircuits_init ds as) =
     map (\<lambda>q. (q, coords q)) (first_occurrences (ds @ as))"
  using foldl_tabulate[of coords "[]" "ds @ as"]
  by (simp add: StabilizerCircuits_init_def coords_def)

lemma scan_items_filter:
  "scan_items (map (\<lambda>q. (q, f q)) ks) p ns = ns @ filter (\<lambda>q. f q = p) ks"
  unfolding scan_items_def by (induction ks arbitrary: ns) auto


lemma dict_getitem_tabulate:
  "dict_getitem (map (\<lambda>q. (q, f q)) ks) k = (if k \<in> set ks then Inr (f k) else Inl (KeyError k))"
  by (induction ks) (auto simp: dict_getitem_def)

lemma get_neighbors_init:
  "get_neighbors (StabilizerCircuits_init ds as) a =
     (if a \<in> set (ds @ as)
      then Inr (matches_at (ds @ as) a (- (1 / 2), - (1 / 2)) @
                matches_at (ds @ as) a (- (1 / 2), 1 / 2) @
                matches_at (ds @ as) a (1 / 2, - (1 / 2)) @
                matches_at (ds @ as) a (1 / 2, 1 / 2))
      else Inl (KeyError a))"
proof -
  have "case_prod g (coords a) = g (row a) (col a)" for g :: "rat \<Rightarrow> rat \<Rightarrow> error + qubit list"
    by (simp add: coords_def)
  then show ?thesis
    by (simp add: get_neighbors_def qubit_map_init dict_getitem_tabulate scan_items_filter
        matches_at_def)
qed

lemma cnot_loop_resolved:
  "\<forall>a\<in>set xs. get_neighbors self a = Inr (nb a) \<Longrightarrow>
   cnot_loop self gate xs circuit = Inr (circuit @ concat (map (\<lambda>a. map (gate a) (nb a)) xs))"
  by (induction xs arbitrary: circuit) (simp_all add: circuit_append_def)

lemma cnot_loop_key_error:
  "cnot_loop self gate xs circuit = Inl e \<Longrightarrow> \<exists>a\<in>set xs. get_neighbors self a = Inl e"
  by (induction xs arbitrary: circuit) (auto split: sum.splits)

lemma get_neighbors_ancilla:
  "a \<in> set as \<Longrightarrow>
   get_neighbors (StabilizerCircuits_init ds as) a =
     Inr (resolved (StabilizerCircuits_init ds as) a)"
  by (simp add: resolved_def get_neighbors_init)

lemma create_stabilizer_cycle_init:
  "create_stabilizer_cycle (StabilizerCircuits_init ds as) =
     Inr (map H as
          @ concat (map (\<lambda>a. map (CNOT a) (resolved (StabilizerCircuits_init ds as) a)) as)
          @ map H as
          @ concat (map (\<lambda>a. map (\<lambda>d. CNOT d a) (resolved (StabilizerCircuits_init ds as) a)) as)
          @ [Measure as ''syndrome''])"
proof -
  let ?self = "StabilizerCircuits_init ds as"
  have anc: "ancilla_qubits ?self = as"
    by (simp add: StabilizerCircuits_init_def)
  have nb: "\<forall>a\<in>set as. get_neighbors ?self a = Inr (resolved ?self a)"
    by (simp add: get_neighbors_ancilla)
  show ?thesis
    unfolding create_stabilizer_cycle_def anc Let_def
    by (simp add: cnot_loop_resolved[OF nb] circuit_append_def Circuit_def)
qed

lemma length_concat_gates:
  "length (concat (map (\<lambda>a. map (g a) (nb a)) xs)) = sum_list (map (\<lambda>a. length (nb a)) xs)"
  by (induction xs) simp_all


lemma example_neighbors:
  "get_neighbors (StabilizerCircuits_init example_data example_ancillas) (GridQubit (1 / 2) (1 / 2))
     = Inr [GridQubit 0 0, GridQubit 0 1, GridQubit 1 0, GridQubit 1 1]"
  "get_neighbors (StabilizerCircuits_init example_data example_ancillas) (GridQubit (1 / 2) (3 / 2))
     = Inr [GridQubit 0 1, GridQubit 1 1]"
  "get_neighbors (StabilizerCircuits_init example_data example_ancillas) (GridQubit (3 / 2) (1 / 2))
     = Inr [GridQubit 1 0, GridQubit 1 1]"
  by (simp_all add: get_neighbors_init matches_at_def coords_def example_data_def
      example_ancillas_def)

lemma inj_coords: "inj coords"
  by (rule injI) (simp add: coords_def qubit.expand)

lemma has_collision_iff: "has_collision ds as \<longleftrightarrow> \<not> distinct (ds @ as)"
  unfolding has_collision_def
  by (simp only: distinct_map) (metis inj_coords inj_on_subset subset_UNIV)

lemma length_first_occurrences: "length (first_occurrences xs) = card (set xs)"
  using distinct_card[of "first_occurrences xs"] by simp

lemma length_first_occurrences_less:
  "\<not> distinct xs \<Longrightarrow> length (first_occurrences xs) < length xs"
proof -
  assume "\<not> distinct xs"
  then have "card (set xs) \<noteq> length xs"
    using card_distinct by blast
  with card_length[of xs] show ?thesis
    by (simp add: length_first_occurrences)
qed

section \<open>The logical zero circuit\<close>

text \<open>
  C2: for a layout with data qubits \<open>ds\<close>, \<open>create_logical_zero_circuit\<close> returns exactly
  one reset per data qubit, in the order of \<open>ds\<close>, and no other operation: the circuit
  is the list of the resets of \<open>ds\<close>, and it has \<open>length ds\<close> operations.
\<close>

theorem logical_zero_resets_each_data_qubit:
  "create_logical_zero_circuit (SurfaceCodeEncoder_init ds as) = map Reset ds
   \<and> length (create_logical_zero_circuit (SurfaceCodeEncoder_init ds as)) = length ds"
  by (simp add: create_logical_zero_circuit_def SurfaceCodeEncoder_init_def
      circuit_append_def Circuit_def)

section \<open>The neighbor resolver\<close>

lemma filter_eq_distinct:
  "distinct xs \<Longrightarrow> filter (\<lambda>q. q = x) xs = (if x \<in> set xs then [x] else [])"
  by (induction xs) auto

lemma coords_eq_iff: "coords q = (r, c) \<longleftrightarrow> q = GridQubit r c"
  by (cases q) (auto simp: coords_def)

lemma matches_at_cases:
  "matches_at qs a off =
     (if GridQubit (row a + fst off) (col a + snd off) \<in> set qs
      then [GridQubit (row a + fst off) (col a + snd off)] else [])"
  using filter_eq_distinct[of "first_occurrences qs" "GridQubit (row a + fst off) (col a + snd off)"]
  by (simp add: matches_at_def coords_eq_iff)

text \<open>
  With all four diagonal positions held by data qubits the resolver returns four
  qubits, on every layout.
\<close>

lemma interior_four_neighbors:
  assumes "a \<in> set (ds @ as)" and "length (data_occupied ds a) = 4"
  shows "\<exists>ns. get_neighbors (StabilizerCircuits_init ds as) a = Inr ns \<and> length ns = 4"
proof -
  have "length (filter P neighbor_offsets) = 4 \<Longrightarrow> \<forall>off\<in>set neighbor_offsets. P off" for P
    using length_filter_less[of _ neighbor_offsets P]
    by (fastforce simp: neighbor_offsets_def)
  with assms(2) have "\<forall>off\<in>set neighbor_offsets.
      GridQubit (row a + fst off) (col a + snd off) \<in> set ds"
    unfolding data_occupied_def by blast
  with assms(1) show ?thesis
    by (simp add: get_neighbors_init matches_at_cases neighbor_offsets_def)
qed

text \<open>
  The set of returned neighbors is the set of qubits of the layout, data or ancilla, at
  the four diagonal positions. Where no qubit outside the data sequence sits at such a
  position, as on the checkerboard lattice with ancillas at half-integer and data
  qubits at integer coordinates, these are the data qubits there.
\<close>

lemma neighbors_set:
  assumes "a \<in> set (ds @ as)"
  shows "\<exists>ns. get_neighbors (StabilizerCircuits_init ds as) a = Inr ns
    \<and> set ns = {q \<in> set (ds @ as). \<exists>off\<in>set neighbor_offsets.
                  coords q = (row a + fst off, col a + snd off)}"
  using assms
  by (simp add: get_neighbors_init matches_at_def neighbor_offsets_def) blast

lemma neighbors_are_data_on_lattice:
  assumes "a \<in> set (ds @ as)"
    and "\<forall>q\<in>set as. (\<exists>off\<in>set neighbor_offsets.
           coords q = (row a + fst off, col a + snd off)) \<longrightarrow> q \<in> set ds"
  shows "\<exists>ns. get_neighbors (StabilizerCircuits_init ds as) a = Inr ns
    \<and> set ns = {q \<in> set ds. \<exists>off\<in>set neighbor_offsets.
                  coords q = (row a + fst off, col a + snd off)}"
proof -
  from neighbors_set[OF assms(1)] obtain ns where
    ns: "get_neighbors (StabilizerCircuits_init ds as) a = Inr ns"
    and s: "set ns = {q \<in> set (ds @ as). \<exists>off\<in>set neighbor_offsets.
                  coords q = (row a + fst off, col a + snd off)}"
    by blast
  from s assms(2) have "set ns = {q \<in> set ds. \<exists>off\<in>set neighbor_offsets.
                  coords q = (row a + fst off, col a + snd off)}"
    by auto
  with ns show ?thesis by blast
qed

text \<open>
  C3: for an ancilla of the coordinate mapping the resolver is to return data qubits
  only, those at the four diagonal positions. The helper's docstring says so ("find the
  4 adjacent data qubits"), but the scan runs over the whole mapping, ancillas included.
  With data qubits at (0,0), (0,1), (1,0) and ancillas at (0.5,0.5) and (1,1), the
  resolver returns for the ancilla at (0.5,0.5) the qubit at (1,1), which is not a data
  qubit.
\<close>

theorem neighbors_include_ancilla_at_offset:
  "get_neighbors
     (StabilizerCircuits_init [GridQubit 0 0, GridQubit 0 1, GridQubit 1 0]
        [GridQubit (1 / 2) (1 / 2), GridQubit 1 1])
     (GridQubit (1 / 2) (1 / 2))
   = Inr [GridQubit 0 0, GridQubit 0 1, GridQubit 1 0, GridQubit 1 1]
   \<and> GridQubit 1 1 \<notin> set [GridQubit 0 0, GridQubit 0 1, GridQubit 1 0]"
  by (simp add: get_neighbors_init matches_at_cases)

text \<open>
  C4: an ancilla with four data qubits at its diagonal positions gets exactly 4
  neighbors (\<open>interior_four_neighbors\<close>), and the resolver never raises for a qubit of
  the mapping; an ancilla with fewer data qubits there is to get fewer than 4. With
  data qubits at (0,0), (0,1) and ancillas at (0.5,0.5), (1,0), (1,1), only two of the
  diagonal positions of the ancilla at (0.5,0.5) hold a data qubit, and the resolver
  returns 4 neighbors.
\<close>

theorem boundary_ancilla_gets_four_neighbors:
  "data_occupied [GridQubit 0 0, GridQubit 0 1] (GridQubit (1 / 2) (1 / 2))
     = [(- (1 / 2), - (1 / 2)), (- (1 / 2), 1 / 2)]
   \<and> get_neighbors
       (StabilizerCircuits_init [GridQubit 0 0, GridQubit 0 1]
          [GridQubit (1 / 2) (1 / 2), GridQubit 1 0, GridQubit 1 1])
       (GridQubit (1 / 2) (1 / 2))
     = Inr [GridQubit 0 0, GridQubit 0 1, GridQubit 1 0, GridQubit 1 1]"
  by (simp add: get_neighbors_init matches_at_cases data_occupied_def neighbor_offsets_def)

text \<open>
  C5: for a qubit of the coordinate mapping the returned list is the matches at offset
  (-0.5, -0.5), then those at (-0.5, +0.5), then (+0.5, -0.5), then (+0.5, +0.5); the
  matches at one offset stand in the insertion order of the qubit set given at
  construction, data qubits before ancilla qubits.
\<close>

theorem neighbors_in_offset_then_insertion_order:
  "a \<in> set (ds @ as) \<Longrightarrow>
   get_neighbors (StabilizerCircuits_init ds as) a =
     Inr (matches_at (ds @ as) a (- (1 / 2), - (1 / 2)) @
          matches_at (ds @ as) a (- (1 / 2), 1 / 2) @
          matches_at (ds @ as) a (1 / 2, - (1 / 2)) @
          matches_at (ds @ as) a (1 / 2, 1 / 2))"
  by (simp add: get_neighbors_init)

theorem neighbors_in_offset_then_insertion_order_witness:
  "GridQubit (3 / 2) (1 / 2) \<in> set (example_data @ example_ancillas)
   \<and> get_neighbors (StabilizerCircuits_init example_data example_ancillas)
        (GridQubit (3 / 2) (1 / 2)) =
      Inr (matches_at (example_data @ example_ancillas) (GridQubit (3 / 2) (1 / 2))
             (- (1 / 2), - (1 / 2)) @
           matches_at (example_data @ example_ancillas) (GridQubit (3 / 2) (1 / 2))
             (- (1 / 2), 1 / 2) @
           matches_at (example_data @ example_ancillas) (GridQubit (3 / 2) (1 / 2))
             (1 / 2, - (1 / 2)) @
           matches_at (example_data @ example_ancillas) (GridQubit (3 / 2) (1 / 2))
             (1 / 2, 1 / 2))
   \<and> matches_at (example_data @ example_ancillas) (GridQubit (3 / 2) (1 / 2))
        (- (1 / 2), - (1 / 2)) = [GridQubit 1 0]
   \<and> matches_at (example_data @ example_ancillas) (GridQubit (3 / 2) (1 / 2))
        (- (1 / 2), 1 / 2) = [GridQubit 1 1]
   \<and> matches_at (example_data @ example_ancillas) (GridQubit (3 / 2) (1 / 2))
        (1 / 2, - (1 / 2)) = []
   \<and> matches_at (example_data @ example_ancillas) (GridQubit (3 / 2) (1 / 2))
        (1 / 2, 1 / 2) = []"
proof -
  have m: "GridQubit (3 / 2) (1 / 2) \<in> set (example_data @ example_ancillas)"
    by (simp add: example_ancillas_def)
  have "matches_at (example_data @ example_ancillas) (GridQubit (3 / 2) (1 / 2))
          (- (1 / 2), - (1 / 2)) = [GridQubit 1 0]"
    and "matches_at (example_data @ example_ancillas) (GridQubit (3 / 2) (1 / 2))
          (- (1 / 2), 1 / 2) = [GridQubit 1 1]"
    and "matches_at (example_data @ example_ancillas) (GridQubit (3 / 2) (1 / 2))
          (1 / 2, - (1 / 2)) = []"
    and "matches_at (example_data @ example_ancillas) (GridQubit (3 / 2) (1 / 2))
          (1 / 2, 1 / 2) = []"
    by (simp_all add: matches_at_def coords_def example_data_def example_ancillas_def)
  with m neighbors_in_offset_then_insertion_order[OF m] show ?thesis
    by simp
qed

text \<open>
  C6: the resolver raises the lookup error exactly for a qubit that was in neither
  sequence passed to the constructor, and returns a list of neighbors exactly for a
  qubit that was in one of them.
\<close>

theorem neighbors_key_error_iff_absent:
  "(get_neighbors (StabilizerCircuits_init ds as) q = Inl (KeyError q)
      \<longleftrightarrow> q \<notin> set ds \<and> q \<notin> set as)
   \<and> ((\<exists>ns. get_neighbors (StabilizerCircuits_init ds as) q = Inr ns)
      \<longleftrightarrow> q \<in> set ds \<or> q \<in> set as)
   \<and> (q \<in> fst ` set (qubit_map (StabilizerCircuits_init ds as))
      \<longleftrightarrow> q \<in> set ds \<or> q \<in> set as)"
  by (auto simp add: get_neighbors_init qubit_map_init image_iff)

theorem neighbors_key_error_iff_absent_witness:
  "get_neighbors (StabilizerCircuits_init example_data example_ancillas) (GridQubit 2 2)
     = Inl (KeyError (GridQubit 2 2))
   \<and> GridQubit 2 2 \<notin> set example_data \<and> GridQubit 2 2 \<notin> set example_ancillas
   \<and> get_neighbors (StabilizerCircuits_init example_data example_ancillas) (GridQubit 0 1)
     \<noteq> Inl (KeyError (GridQubit 0 1))
   \<and> GridQubit 0 1 \<in> set example_data"
proof -
  have "GridQubit 2 2 \<notin> set example_data \<and> GridQubit 2 2 \<notin> set example_ancillas"
    and "GridQubit 0 1 \<in> set example_data"
    by (simp_all add: example_data_def example_ancillas_def)
  then show ?thesis
    using neighbors_key_error_iff_absent[of example_data example_ancillas "GridQubit 2 2"]
      neighbors_key_error_iff_absent[of example_data example_ancillas "GridQubit 0 1"]
    by simp
qed

text \<open>
  C9: on the example patch the resolver returns for the ancilla at (0.5,0.5) the four
  data qubits (0,0), (0,1), (1,0), (1,1), and for the ancilla at (0.5,1.5) the two data
  qubits (0,1), (1,1).
\<close>

theorem example_patch_neighbors:
  "get_neighbors (StabilizerCircuits_init example_data example_ancillas)
     (GridQubit (1 / 2) (1 / 2))
     = Inr [GridQubit 0 0, GridQubit 0 1, GridQubit 1 0, GridQubit 1 1]
   \<and> get_neighbors (StabilizerCircuits_init example_data example_ancillas)
       (GridQubit (1 / 2) (3 / 2))
     = Inr [GridQubit 0 1, GridQubit 1 1]"
  by (simp add: get_neighbors_init matches_at_def coords_def example_data_def
      example_ancillas_def)

section \<open>The stabilizer cycle\<close>

text \<open>
  C1: for a layout with ancilla sequence \<open>as\<close>, every ancilla has resolved neighbors,
  and \<open>create_stabilizer_cycle\<close> returns the circuit made of: one \<open>H\<close> on each ancilla in
  the order of \<open>as\<close>; for each ancilla in order, one \<open>CNOT\<close> from the ancilla to each of
  its resolved neighbors in resolver order; one \<open>H\<close> on each ancilla again; for each
  ancilla in order, one \<open>CNOT\<close> from each of its resolved neighbors to the ancilla; and
  one measurement of all ancillas with the label "syndrome". It has
  A + (sum of neighbor counts) + A + (sum of neighbor counts) + 1 operations.
\<close>

theorem stabilizer_cycle_phase_order:
  "(\<forall>a\<in>set as. get_neighbors (StabilizerCircuits_init ds as) a =
       Inr (resolved (StabilizerCircuits_init ds as) a))
   \<and> (\<exists>circuit.
        create_stabilizer_cycle (StabilizerCircuits_init ds as) = Inr circuit
        \<and> circuit =
            map H as
            @ concat (map (\<lambda>a. map (\<lambda>d. CNOT a d) (resolved (StabilizerCircuits_init ds as) a)) as)
            @ map H as
            @ concat (map (\<lambda>a. map (\<lambda>d. CNOT d a) (resolved (StabilizerCircuits_init ds as) a)) as)
            @ [Measure as ''syndrome'']
        \<and> length circuit =
            length as
            + sum_list (map (\<lambda>a. length (resolved (StabilizerCircuits_init ds as) a)) as)
            + length as
            + sum_list (map (\<lambda>a. length (resolved (StabilizerCircuits_init ds as) a)) as)
            + 1)"
  by (simp add: get_neighbors_ancilla create_stabilizer_cycle_init length_concat_gates)

theorem stabilizer_cycle_phase_order_witness:
  "GridQubit (1 / 2) (3 / 2) \<in> set example_ancillas
   \<and> get_neighbors (StabilizerCircuits_init example_data example_ancillas)
        (GridQubit (1 / 2) (3 / 2)) =
      Inr (resolved (StabilizerCircuits_init example_data example_ancillas)
        (GridQubit (1 / 2) (3 / 2)))
   \<and> create_stabilizer_cycle (StabilizerCircuits_init example_data example_ancillas) =
      Inr [H (GridQubit (1 / 2) (1 / 2)), H (GridQubit (1 / 2) (3 / 2)),
           H (GridQubit (3 / 2) (1 / 2)),
           CNOT (GridQubit (1 / 2) (1 / 2)) (GridQubit 0 0),
           CNOT (GridQubit (1 / 2) (1 / 2)) (GridQubit 0 1),
           CNOT (GridQubit (1 / 2) (1 / 2)) (GridQubit 1 0),
           CNOT (GridQubit (1 / 2) (1 / 2)) (GridQubit 1 1),
           CNOT (GridQubit (1 / 2) (3 / 2)) (GridQubit 0 1),
           CNOT (GridQubit (1 / 2) (3 / 2)) (GridQubit 1 1),
           CNOT (GridQubit (3 / 2) (1 / 2)) (GridQubit 1 0),
           CNOT (GridQubit (3 / 2) (1 / 2)) (GridQubit 1 1),
           H (GridQubit (1 / 2) (1 / 2)), H (GridQubit (1 / 2) (3 / 2)),
           H (GridQubit (3 / 2) (1 / 2)),
           CNOT (GridQubit 0 0) (GridQubit (1 / 2) (1 / 2)),
           CNOT (GridQubit 0 1) (GridQubit (1 / 2) (1 / 2)),
           CNOT (GridQubit 1 0) (GridQubit (1 / 2) (1 / 2)),
           CNOT (GridQubit 1 1) (GridQubit (1 / 2) (1 / 2)),
           CNOT (GridQubit 0 1) (GridQubit (1 / 2) (3 / 2)),
           CNOT (GridQubit 1 1) (GridQubit (1 / 2) (3 / 2)),
           CNOT (GridQubit 1 0) (GridQubit (3 / 2) (1 / 2)),
           CNOT (GridQubit 1 1) (GridQubit (3 / 2) (1 / 2)),
           Measure [GridQubit (1 / 2) (1 / 2), GridQubit (1 / 2) (3 / 2),
                    GridQubit (3 / 2) (1 / 2)] ''syndrome'']"
proof -
  let ?self = "StabilizerCircuits_init example_data example_ancillas"
  have r: "resolved ?self (GridQubit (1 / 2) (1 / 2)) =
             [GridQubit 0 0, GridQubit 0 1, GridQubit 1 0, GridQubit 1 1]"
          "resolved ?self (GridQubit (1 / 2) (3 / 2)) = [GridQubit 0 1, GridQubit 1 1]"
          "resolved ?self (GridQubit (3 / 2) (1 / 2)) = [GridQubit 1 0, GridQubit 1 1]"
    by (simp_all add: resolved_def example_neighbors)
  have m: "GridQubit (1 / 2) (3 / 2) \<in> set example_ancillas"
    by (simp add: example_ancillas_def)
  have cm: "concat (map f example_ancillas) =
      f (GridQubit (1 / 2) (1 / 2)) @ f (GridQubit (1 / 2) (3 / 2)) @ f (GridQubit (3 / 2) (1 / 2))"
    for f :: "qubit \<Rightarrow> operation list"
    by (simp add: example_ancillas_def)
  have mh: "map H example_ancillas =
      [H (GridQubit (1 / 2) (1 / 2)), H (GridQubit (1 / 2) (3 / 2)), H (GridQubit (3 / 2) (1 / 2))]"
    by (simp add: example_ancillas_def)
  have mm: "Measure example_ancillas k =
      Measure [GridQubit (1 / 2) (1 / 2), GridQubit (1 / 2) (3 / 2), GridQubit (3 / 2) (1 / 2)] k"
    for k
    by (simp add: example_ancillas_def)
  from stabilizer_cycle_phase_order[of example_ancillas example_data] m
  show ?thesis
    by (auto simp add: cm mh mm r)
qed

text \<open>
  C10: \<open>create_stabilizer_cycle\<close> never raises the resolver's lookup error. It queries
  the resolver with the qubits of the ancilla sequence only; the constructor has put
  each of them into the coordinate mapping, so none of these queries raises, and the
  method returns a circuit.
\<close>

theorem stabilizer_cycle_never_key_error:
  "(\<forall>a\<in>set as. a \<in> fst ` set (qubit_map (StabilizerCircuits_init ds as)))
   \<and> (\<forall>a\<in>set as. \<forall>e. get_neighbors (StabilizerCircuits_init ds as) a \<noteq> Inl e)
   \<and> (\<forall>e. create_stabilizer_cycle (StabilizerCircuits_init ds as) \<noteq> Inl e)
   \<and> (\<forall>gate circuit e.
        cnot_loop (StabilizerCircuits_init ds as) gate as circuit \<noteq> Inl e)"
proof -
  have keys: "\<forall>a\<in>set as. a \<in> fst ` set (qubit_map (StabilizerCircuits_init ds as))"
    by (auto simp add: qubit_map_init image_iff)
  have nb: "\<forall>a\<in>set as. \<forall>e. get_neighbors (StabilizerCircuits_init ds as) a \<noteq> Inl e"
    by (simp add: get_neighbors_init)
  have "\<forall>gate circuit e. cnot_loop (StabilizerCircuits_init ds as) gate as circuit \<noteq> Inl e"
    using nb cnot_loop_key_error by blast
  with keys nb show ?thesis
    by (simp add: create_stabilizer_cycle_init)
qed

theorem stabilizer_cycle_never_key_error_witness:
  "GridQubit (1 / 2) (3 / 2) \<in> set example_ancillas
   \<and> GridQubit (1 / 2) (3 / 2)
       \<in> fst ` set (qubit_map (StabilizerCircuits_init example_data example_ancillas))
   \<and> get_neighbors (StabilizerCircuits_init example_data example_ancillas)
       (GridQubit (1 / 2) (3 / 2)) \<noteq> Inl (KeyError (GridQubit (1 / 2) (3 / 2)))
   \<and> create_stabilizer_cycle (StabilizerCircuits_init example_data example_ancillas)
       \<noteq> Inl (KeyError (GridQubit (1 / 2) (3 / 2)))"
proof -
  have "GridQubit (1 / 2) (3 / 2) \<in> set example_ancillas"
    by (simp add: example_ancillas_def)
  then show ?thesis
    using stabilizer_cycle_never_key_error[of example_ancillas example_data] by blast
qed

section \<open>Colliding coordinates\<close>

text \<open>
  C7, as stated, fails: a layout in which two qubits share a coordinate is to be
  rejected by a construction or lookup failure. With the data qubit at (0,0) given
  twice and one ancilla at (0.5,0.5), both constructors return their object, the
  coordinate mapping holds the qubit at (0,0) once, and both generators return a
  circuit.
\<close>

theorem colliding_layout_is_accepted:
  "has_collision [GridQubit 0 0, GridQubit 0 0] [GridQubit (1 / 2) (1 / 2)]
   \<and> qubit_map (StabilizerCircuits_init [GridQubit 0 0, GridQubit 0 0] [GridQubit (1 / 2) (1 / 2)])
     = [(GridQubit 0 0, (0, 0)), (GridQubit (1 / 2) (1 / 2), (1 / 2, 1 / 2))]
   \<and> create_stabilizer_cycle
       (StabilizerCircuits_init [GridQubit 0 0, GridQubit 0 0] [GridQubit (1 / 2) (1 / 2)])
     = Inr [H (GridQubit (1 / 2) (1 / 2)),
            CNOT (GridQubit (1 / 2) (1 / 2)) (GridQubit 0 0),
            H (GridQubit (1 / 2) (1 / 2)),
            CNOT (GridQubit 0 0) (GridQubit (1 / 2) (1 / 2)),
            Measure [GridQubit (1 / 2) (1 / 2)] ''syndrome'']
   \<and> all_qubits
       (SurfaceCodeEncoder_init [GridQubit 0 0, GridQubit 0 0] [GridQubit (1 / 2) (1 / 2)])
     = [GridQubit 0 0, GridQubit 0 0, GridQubit (1 / 2) (1 / 2)]
   \<and> create_logical_zero_circuit
       (SurfaceCodeEncoder_init [GridQubit 0 0, GridQubit 0 0] [GridQubit (1 / 2) (1 / 2)])
     = [Reset (GridQubit 0 0), Reset (GridQubit 0 0)]"
  by (simp add: has_collision_def qubit_map_init coords_def create_stabilizer_cycle_init
      resolved_def get_neighbors_init matches_at_cases circuit_append_def Circuit_def
      SurfaceCodeEncoder_init_def create_logical_zero_circuit_def)

text \<open>
  C7, amended: for every construction input in which two qubits of the combined
  sequence share a coordinate, neither constructor fails. Both objects keep the two
  sequences as given; the coordinate mapping of the stabilizer generator keeps one
  entry for the colliding qubits, at the place of the first occurrence, so it has fewer
  entries than qubits were passed; and no lookup error follows, neither from the
  resolver on a qubit that was passed nor from \<open>create_stabilizer_cycle\<close>.
\<close>

theorem colliding_layout_collapses_in_mapping:
  assumes "has_collision ds as"
  shows "data_qubits (StabilizerCircuits_init ds as) = ds
   \<and> ancilla_qubits (StabilizerCircuits_init ds as) = as
   \<and> map fst (qubit_map (StabilizerCircuits_init ds as)) = first_occurrences (ds @ as)
   \<and> distinct (map fst (qubit_map (StabilizerCircuits_init ds as)))
   \<and> length (qubit_map (StabilizerCircuits_init ds as)) < length (ds @ as)
   \<and> encoder_data_qubits (SurfaceCodeEncoder_init ds as) = ds
   \<and> encoder_ancilla_qubits (SurfaceCodeEncoder_init ds as) = as
   \<and> all_qubits (SurfaceCodeEncoder_init ds as) = ds @ as
   \<and> (\<forall>q. q \<in> set (ds @ as) \<longrightarrow>
         get_neighbors (StabilizerCircuits_init ds as) q \<noteq> Inl (KeyError q))
   \<and> (\<forall>q. create_stabilizer_cycle (StabilizerCircuits_init ds as) \<noteq> Inl (KeyError q))"
proof -
  from assms have "\<not> distinct (ds @ as)"
    by (simp add: has_collision_iff)
  then have "length (first_occurrences (ds @ as)) < length (ds @ as)"
    by (rule length_first_occurrences_less)
  then have "length (qubit_map (StabilizerCircuits_init ds as)) < length (ds @ as)"
    by (simp add: qubit_map_init)
  moreover have "map fst (qubit_map (StabilizerCircuits_init ds as)) = first_occurrences (ds @ as)"
    by (simp add: qubit_map_init comp_def)
  ultimately show ?thesis
    by (simp add: create_stabilizer_cycle_init get_neighbors_init)
      (simp add: StabilizerCircuits_init_def SurfaceCodeEncoder_init_def)
qed

theorem colliding_layout_collapses_in_mapping_witness:
  "has_collision [GridQubit 0 0, GridQubit 0 0] [GridQubit (1 / 2) (1 / 2)]
   \<and> map fst (qubit_map
       (StabilizerCircuits_init [GridQubit 0 0, GridQubit 0 0] [GridQubit (1 / 2) (1 / 2)]))
     = first_occurrences ([GridQubit 0 0, GridQubit 0 0] @ [GridQubit (1 / 2) (1 / 2)])
   \<and> length (qubit_map
       (StabilizerCircuits_init [GridQubit 0 0, GridQubit 0 0] [GridQubit (1 / 2) (1 / 2)]))
     < 3
   \<and> get_neighbors
       (StabilizerCircuits_init [GridQubit 0 0, GridQubit 0 0] [GridQubit (1 / 2) (1 / 2)])
       (GridQubit 0 0) \<noteq> Inl (KeyError (GridQubit 0 0))"
proof -
  have "has_collision [GridQubit 0 0, GridQubit 0 0] [GridQubit (1 / 2) (1 / 2)]"
    by (simp add: has_collision_def)
  then show ?thesis
    using colliding_layout_collapses_in_mapping
      [of "[GridQubit 0 0, GridQubit 0 0]" "[GridQubit (1 / 2) (1 / 2)]"]
    by simp
qed

section \<open>Determinism\<close>

text \<open>
  The effect of the loop on the state: it changes nothing but the circuit at address
  \<open>c\<close>, and there it appends what the loop of the functional model appends.
\<close>

lemma cnot_loop_on_frame:
  "self_object (snd (cnot_loop_on gate xs c s)) = self_object s
   \<and> stdout (snd (cnot_loop_on gate xs c s)) = stdout s
   \<and> length (circuits (snd (cnot_loop_on gate xs c s))) = length (circuits s)
   \<and> (\<forall>a. a \<noteq> c \<longrightarrow> circuits (snd (cnot_loop_on gate xs c s)) ! a = circuits s ! a)"
  by (induction xs arbitrary: s) (auto simp add: append_to_def split: sum.splits)

lemma cnot_loop_on_result:
  "c < length (circuits s) \<Longrightarrow>
   (case cnot_loop (self_object s) gate xs (circuits s ! c) of
      Inl e \<Rightarrow> fst (cnot_loop_on gate xs c s) = Some e
    | Inr circuit \<Rightarrow> fst (cnot_loop_on gate xs c s) = None
        \<and> circuits (snd (cnot_loop_on gate xs c s)) ! c = circuit)"
proof (induction xs arbitrary: s)
  case Nil
  then show ?case by simp
next
  case (Cons a xs)
  show ?case
  proof (cases "get_neighbors (self_object s) a")
    case (Inl e)
    then show ?thesis by simp
  next
    case (Inr ns)
    let ?s = "append_to c (map (gate a) ns) s"
    have "c < length (circuits ?s)" and "self_object ?s = self_object s"
      and "circuits ?s ! c = circuit_append (circuits s ! c) (map (gate a) ns)"
      using Cons.prems by (simp_all add: append_to_def)
    with Cons.IH[of ?s] Inr show ?thesis by (simp split: sum.splits)
  qed
qed



lemma run_create_stabilizer_cycle_spec:
  "self_object (snd (run_create_stabilizer_cycle s)) = self_object s
   \<and> length (circuits (snd (run_create_stabilizer_cycle s))) = Suc (length (circuits s))
   \<and> (\<forall>a<length (circuits s).
         circuits (snd (run_create_stabilizer_cycle s)) ! a = circuits s ! a)
   \<and> circuit_at (snd (run_create_stabilizer_cycle s)) (fst (run_create_stabilizer_cycle s))
       = create_stabilizer_cycle (self_object s)
   \<and> (\<forall>c. fst (run_create_stabilizer_cycle s) = Inr c \<longrightarrow> c = length (circuits s))"
proof -
  let ?n = "length (circuits s)"
  let ?anc = "ancilla_qubits (self_object s)"
  let ?g1 = "\<lambda>ancilla data. CNOT ancilla data"
  let ?g2 = "\<lambda>ancilla data. CNOT data ancilla"
  define s2 where "s2 = append_to ?n (map H ?anc) (s\<lparr>circuits := circuits s @ [Circuit]\<rparr>)"
  have s2: "self_object s2 = self_object s" "length (circuits s2) = Suc ?n"
    "circuits s2 ! ?n = circuit_append Circuit (map H ?anc)"
    "\<forall>a<?n. circuits s2 ! a = circuits s ! a"
    by (simp_all add: s2_def append_to_def nth_append)
  obtain r1 s3 where L1: "cnot_loop_on ?g1 ?anc ?n s2 = (r1, s3)"
    by fastforce
  from cnot_loop_on_frame[of ?g1 ?anc ?n s2] L1 s2
  have s3: "self_object s3 = self_object s" "length (circuits s3) = Suc ?n"
    "\<forall>a<?n. circuits s3 ! a = circuits s ! a"
    by auto
  from cnot_loop_on_result[of ?n s2 ?g1 ?anc] L1 s2
  have R1: "case cnot_loop (self_object s) ?g1 ?anc (circuit_append Circuit (map H ?anc)) of
              Inl e \<Rightarrow> r1 = Some e
            | Inr circuit \<Rightarrow> r1 = None \<and> circuits s3 ! ?n = circuit"
    by (simp split: sum.splits)
  define s4 where "s4 = append_to ?n (map H ?anc) s3"
  have s4: "self_object s4 = self_object s" "length (circuits s4) = Suc ?n"
    "circuits s4 ! ?n = circuit_append (circuits s3 ! ?n) (map H ?anc)"
    "\<forall>a<?n. circuits s4 ! a = circuits s ! a"
    using s3 by (simp_all add: s4_def append_to_def)
  obtain r2 s5 where L2: "cnot_loop_on ?g2 ?anc ?n s4 = (r2, s5)"
    by fastforce
  from cnot_loop_on_frame[of ?g2 ?anc ?n s4] L2 s4
  have s5: "self_object s5 = self_object s" "length (circuits s5) = Suc ?n"
    "\<forall>a<?n. circuits s5 ! a = circuits s ! a"
    by auto
  from cnot_loop_on_result[of ?n s4 ?g2 ?anc] L2 s4
  have R2: "case cnot_loop (self_object s) ?g2 ?anc
                   (circuit_append (circuits s3 ! ?n) (map H ?anc)) of
              Inl e \<Rightarrow> r2 = Some e
            | Inr circuit \<Rightarrow> r2 = None \<and> circuits s5 ! ?n = circuit"
    by (simp split: sum.splits)
  have run: "run_create_stabilizer_cycle s =
      (case r1 of
         Some e \<Rightarrow> (Inl e, s3)
       | None \<Rightarrow>
          (case r2 of
             Some e \<Rightarrow> (Inl e, s5)
           | None \<Rightarrow>
               (Inr ?n,
                print_line ''[Stabilizers] Created one full stabilizer measurement cycle circuit.''
                  (append_to ?n [Measure ?anc ''syndrome''] s5))))"
    using L1 L2 s2(1) s3(1) s4(1) s5(1)
    by (simp add: run_create_stabilizer_cycle_def new_Circuit_def Let_def s2_def[symmetric]
        s4_def[symmetric] split: option.splits)
  show ?thesis
    using R1 R2 s3 s5
    by (auto simp add: run circuit_at_def create_stabilizer_cycle_def Let_def print_line_def
        append_to_def split: option.splits sum.splits)
qed

lemma run_create_logical_zero_circuit_spec:
  "self_object (snd (run_create_logical_zero_circuit s)) = self_object s
   \<and> fst (run_create_logical_zero_circuit s) = length (circuits s)
   \<and> length (circuits (snd (run_create_logical_zero_circuit s))) = Suc (length (circuits s))
   \<and> (\<forall>a<length (circuits s).
         circuits (snd (run_create_logical_zero_circuit s)) ! a = circuits s ! a)
   \<and> circuits (snd (run_create_logical_zero_circuit s)) ! length (circuits s)
       = create_logical_zero_circuit (self_object s)"
  by (simp add: run_create_logical_zero_circuit_def new_Circuit_def append_to_def
      print_line_def create_logical_zero_circuit_def nth_append)

text \<open>
  C8: on a fixed layout, two calls of \<open>create_stabilizer_cycle\<close> in a row, from any
  interpreter state, return circuits with the same operation sequence (or raise the same
  error), and so do two calls of \<open>create_logical_zero_circuit\<close>. The sequence is a
  function of the object alone, whatever the rest of the state holds, so no randomness
  enters; a call leaves the object as it was; and the second call builds a circuit of
  its own and leaves the circuit of the first call as it was, so no state is carried
  from call to call.
\<close>

theorem generators_are_deterministic:
  "circuit_at (snd (run_create_stabilizer_cycle (snd (run_create_stabilizer_cycle s))))
       (fst (run_create_stabilizer_cycle (snd (run_create_stabilizer_cycle s))))
     = circuit_at (snd (run_create_stabilizer_cycle s)) (fst (run_create_stabilizer_cycle s))
   \<and> circuit_at (snd (run_create_stabilizer_cycle s)) (fst (run_create_stabilizer_cycle s))
     = create_stabilizer_cycle (self_object s)
   \<and> circuit_at (snd (run_create_stabilizer_cycle (snd (run_create_stabilizer_cycle s))))
       (fst (run_create_stabilizer_cycle s))
     = circuit_at (snd (run_create_stabilizer_cycle s)) (fst (run_create_stabilizer_cycle s))
   \<and> self_object (snd (run_create_stabilizer_cycle s)) = self_object s
   \<and> self_object (snd (run_create_stabilizer_cycle (snd (run_create_stabilizer_cycle s))))
     = self_object s
   \<and> circuits (snd (run_create_logical_zero_circuit (snd (run_create_logical_zero_circuit t))))
       ! fst (run_create_logical_zero_circuit (snd (run_create_logical_zero_circuit t)))
     = circuits (snd (run_create_logical_zero_circuit t)) ! fst (run_create_logical_zero_circuit t)
   \<and> circuits (snd (run_create_logical_zero_circuit t)) ! fst (run_create_logical_zero_circuit t)
     = create_logical_zero_circuit (self_object t)
   \<and> circuits (snd (run_create_logical_zero_circuit (snd (run_create_logical_zero_circuit t))))
       ! fst (run_create_logical_zero_circuit t)
     = circuits (snd (run_create_logical_zero_circuit t)) ! fst (run_create_logical_zero_circuit t)
   \<and> self_object (snd (run_create_logical_zero_circuit t)) = self_object t
   \<and> self_object (snd (run_create_logical_zero_circuit (snd (run_create_logical_zero_circuit t))))
     = self_object t"
proof -
  let ?s1 = "snd (run_create_stabilizer_cycle s)"
  let ?t1 = "snd (run_create_logical_zero_circuit t)"
  note first = run_create_stabilizer_cycle_spec[of s]
  note second = run_create_stabilizer_cycle_spec[of ?s1]
  have kept: "circuit_at (snd (run_create_stabilizer_cycle ?s1)) (fst (run_create_stabilizer_cycle s))
      = circuit_at ?s1 (fst (run_create_stabilizer_cycle s))"
  proof (cases "fst (run_create_stabilizer_cycle s)")
    case (Inl e)
    then show ?thesis by (simp add: circuit_at_def)
  next
    case (Inr c)
    with first have "c < length (circuits ?s1)" by simp
    with second Inr show ?thesis by (simp add: circuit_at_def)
  qed
  have stab: "circuit_at (snd (run_create_stabilizer_cycle ?s1)) (fst (run_create_stabilizer_cycle ?s1))
      = circuit_at ?s1 (fst (run_create_stabilizer_cycle s))"
    using first second by simp
  note zfirst = run_create_logical_zero_circuit_spec[of t]
  note zsecond = run_create_logical_zero_circuit_spec[of ?t1]
  have zero: "circuits (snd (run_create_logical_zero_circuit ?t1))
                ! fst (run_create_logical_zero_circuit ?t1)
              = circuits ?t1 ! fst (run_create_logical_zero_circuit t)"
    using zfirst zsecond by simp
  have zkept: "circuits (snd (run_create_logical_zero_circuit ?t1))
                ! fst (run_create_logical_zero_circuit t)
              = circuits ?t1 ! fst (run_create_logical_zero_circuit t)"
    using zfirst zsecond by simp
  show ?thesis
    using first second zfirst zsecond kept stab zero zkept by simp
qed

end
